theory Spec2Isabelle
  imports Main
begin

section \<open>OCPP types used by the transaction manager\<close>

text \<open>
  Modelled from the spec: the enumerations and the message structures of OCPP 1.6 that
  TransactionManager.cpp uses; their headers are not among the sources. The messages
  have the fields of the specification's table of wire messages. Where two structures
  have a field of the same name, the later record prefixes its field; the status of
  an IdTagInfo is \<open>auth_status\<close>.
\<close>

datatype AuthorizationStatus = Accepted | Blocked | Expired | Invalid | ConcurrentTx

datatype ChargePointStatus =
  Available | Preparing | Charging | SuspendedEV | SuspendedEVSE | Finishing
  | Reserved | Unavailable | Faulted

datatype RegistrationStatus = Accepted | Pending | Rejected

datatype RemoteStartStopStatus = Accepted | Rejected

datatype CallResult = Ok | Failed

datatype Reason =
  EmergencyStop | EVDisconnected | HardReset | Local | Other | PowerLoss | Reboot
  | Remote | SoftReset | UnlockCommand | DeAuthorized

text \<open>A serialized JSON document (the payload of a queued request).\<close>

type_synonym Document = string

text \<open>Timestamps (DateTime) are seconds since the epoch; 0 is the cleared value.\<close>

type_synonym DateTime = int

record IdTagInfo =
  auth_status :: AuthorizationStatus
  expiryDate :: "DateTime option"
  parentIdTag :: "string option"

record MeterValue =
  mv_timestamp :: DateTime
  sampledValue :: "string list"

datatype ChargingProfile = ChargingProfile int

record StartTransactionReq =
  connectorId :: nat
  idTag :: string
  meterStart :: int
  timestamp :: DateTime
  reservationId :: "int option"

record StartTransactionConf =
  transactionId :: int
  idTagInfo :: IdTagInfo

record StopTransactionReq =
  stop_transactionId :: int
  stop_idTag :: "string option"
  meterStop :: int
  stop_timestamp :: DateTime
  reason :: Reason
  transactionData :: "MeterValue list"

record StopTransactionConf =
  stop_idTagInfo :: "IdTagInfo option"

record RemoteStartTransactionReq =
  remote_connectorId :: "nat option"
  remote_idTag :: string
  chargingProfile :: "ChargingProfile option"

abbreviation START_TRANSACTION_ACTION :: string where
  "START_TRANSACTION_ACTION \<equiv> ''StartTransaction''"

abbreviation STOP_TRANSACTION_ACTION :: string where
  "STOP_TRANSACTION_ACTION \<equiv> ''StopTransaction''"

abbreviation METER_VALUES_ACTION :: string where
  "METER_VALUES_ACTION \<equiv> ''MeterValues''"

section \<open>Connectors\<close>

text \<open>
  Modelled from the spec: the per-connector record, with the fields that
  TransactionManager.cpp reads and writes. The mutex of the source serialises
  concurrent writers and has no counterpart here. The field \<open>id\<close> of the source
  is \<open>id_c\<close>.
\<close>

record Connector =
  id_c :: nat
  status :: ChargePointStatus
  transaction_id :: int
  transaction_start :: DateTime
  transaction_id_tag :: string
  reservation_id :: int

text \<open>
  Modelled from the spec: the container Connectors (Connectors.h is not among the
  sources). It offers \<open>get(id)\<close>, which may find nothing, and
  \<open>charge_point()\<close>, the connector 0 that always exists. The physical connectors are
  numbered from 1.
\<close>

record Connectors =
  charge_point :: Connector
  physical :: "Connector list"

abbreviation (input) CONNECTOR_ID_CHARGE_POINT :: nat where
  "CONNECTOR_ID_CHARGE_POINT \<equiv> 0"

definition getConnector :: "Connectors \<Rightarrow> nat \<Rightarrow> Connector option" where
  "getConnector cs i =
     (if i = 0 then Some (charge_point cs)
      else if i \<le> length (physical cs) then Some (physical cs ! (i - 1))
      else None)"

definition getChargePointConnector :: "Connectors \<Rightarrow> Connector" where
  "getChargePointConnector cs = charge_point cs"

text \<open>
  The source writes through the pointer that \<open>getConnector\<close> returned: the write
  lands in the connector stored under the id that was looked up.
\<close>

definition setConnector :: "Connectors \<Rightarrow> nat \<Rightarrow> Connector \<Rightarrow> Connectors" where
  "setConnector cs i c =
     (if i = 0 then cs\<lparr>charge_point := c\<rparr>
      else if i \<le> length (physical cs) then cs\<lparr>physical := (physical cs)[i - 1 := c]\<rparr>
      else cs)"

section \<open>Observable events, collaborators and state\<close>

text \<open>
  Every call that leaves the transaction manager is recorded, in the order of the
  calls, with the answer it got. The record is kept most recent event first.
  In \<open>EvCall\<close> the flag tells whether the FIFO was handed to the sender (the calls of
  startTransaction and stopTransaction) or not (the calls of processFifoRequest).
\<close>

datatype Event =
    EvIsTransactionAllowed nat string AuthorizationStatus
  | EvGetTxStartStopMeterValue nat int
  | EvNow DateTime
  | EvClearReservation nat
  | EvCall string Document bool CallResult
  | EvFifoPush string Document
  | EvFifoPop
  | EvAuthentUpdate string IdTagInfo
  | EvSaveConnector nat "Connector option"
  | EvAssignPendingTxProfiles nat int
  | EvStartSampledMeterValues nat
  | EvStopSampledMeterValues nat
  | EvGetTxStopMeterValues nat "MeterValue list"
  | EvClearTxProfiles nat
  | EvRemoteStartTransactionRequested nat string bool
  | EvInstallTxProfile nat ChargingProfile bool
  | EvIsConnected bool
  | EvGetRegistrationStatus RegistrationStatus
  | EvTransactionDeAuthorized nat
  | EvTimerRestart nat

text \<open>
  The collaborators (configuration, events handler, reservation manager, message
  sender, status manager, smart charging manager, meter values manager, the JSON
  converters and the clock) are outside the transaction manager. Each answer may
  depend on everything that happened before, so each takes the events so far.
  A call of the message sender answers \<open>None\<close> when it fails and the response when it
  succeeds. The configuration is read as it stands during the run.
  A call that only commands a collaborator (clearReservation, the update of the
  authorization cache, the profiles, the sampling) is recorded; what the collaborator
  then does with its own data, the reservation and the status of a connector
  included, is not followed.
  \<open>assign_idTag\<close> is what the id token type of a request (a string of bounded
  capacity, whose header is not among the sources) keeps of the string assigned to
  it.
\<close>

record Env =
  reserveConnectorZeroSupported :: bool
  transactionMessageAttempts :: nat
  transactionMessageRetryInterval :: nat
  isTransactionAllowed :: "Event list \<Rightarrow> nat \<Rightarrow> string \<Rightarrow> AuthorizationStatus"
  getTxStartStopMeterValue :: "Event list \<Rightarrow> nat \<Rightarrow> int"
  now :: "Event list \<Rightarrow> DateTime"
  getTxStopMeterValues :: "Event list \<Rightarrow> nat \<Rightarrow> MeterValue list"
  remoteStartTransactionRequested :: "Event list \<Rightarrow> nat \<Rightarrow> string \<Rightarrow> bool"
  installTxProfile :: "Event list \<Rightarrow> nat \<Rightarrow> ChargingProfile \<Rightarrow> bool"
  isConnected :: "Event list \<Rightarrow> bool"
  getRegistrationStatus :: "Event list \<Rightarrow> RegistrationStatus"
  call_StartTransaction :: "Event list \<Rightarrow> Document \<Rightarrow> StartTransactionConf option"
  call_StopTransaction :: "Event list \<Rightarrow> Document \<Rightarrow> StopTransactionConf option"
  call_MeterValues :: "Event list \<Rightarrow> Document \<Rightarrow> bool"
  assign_idTag :: "string \<Rightarrow> string"
  StartTransactionReq_toJson :: "StartTransactionReq \<Rightarrow> Document"
  StopTransactionReq_toJson :: "StopTransactionReq \<Rightarrow> Document"
  StartTransactionReq_fromJson :: "Document \<Rightarrow> StartTransactionReq"

text \<open>
  The members of TransactionManager that change: the connectors, the FIFO of requests
  (head first), the retry timer (\<open>Some ms\<close> while it is started) and the retry count;
  and the events so far.
\<close>

record State =
  connectors :: Connectors
  requests_fifo :: "(string \<times> Document) list"
  request_retry_timer :: "nat option"
  request_retry_count :: nat
  trace :: "Event list"

definition emit :: "Event \<Rightarrow> State \<Rightarrow> State" where
  "emit e s = s\<lparr>trace := e # trace s\<rparr>"

text \<open>
  Modelled from the spec: the FIFO (its header is not among the sources):
  push appends, front peeks the head, pop removes the head, and push and pop persist.
\<close>

definition fifo_push :: "string \<Rightarrow> Document \<Rightarrow> State \<Rightarrow> State" where
  "fifo_push action payload s =
     emit (EvFifoPush action payload) (s\<lparr>requests_fifo := requests_fifo s @ [(action, payload)]\<rparr>)"

definition fifo_pop :: "State \<Rightarrow> State" where
  "fifo_pop s = emit EvFifoPop (s\<lparr>requests_fifo := tl (requests_fifo s)\<rparr>)"

text \<open>
  Modelled from the spec: the retry timer (its header is not among the sources):
  restart arms the single-shot timer, which then reports that it is started.
\<close>

definition timer_restart :: "nat \<Rightarrow> State \<Rightarrow> State" where
  "timer_restart ms s = emit (EvTimerRestart ms) (s\<lparr>request_retry_timer := Some ms\<rparr>)"

definition timer_isStarted :: "State \<Rightarrow> bool" where
  "timer_isStarted s = (request_retry_timer s \<noteq> None)"

text \<open>
  Modelled from the spec: saveConnector commits the record of the connector of that id
  as it is at the time of the call.
\<close>

definition saveConnector :: "nat \<Rightarrow> State \<Rightarrow> State" where
  "saveConnector i s = emit (EvSaveConnector i (getConnector (connectors s) i)) s"

text \<open>
  Modelled from the spec: the call of the message sender with the FIFO attached
  (GenericMessageSender.h is not among the sources). The request is
  serialized and sent; when the send fails, the action and the serialized request are
  appended to the FIFO.
\<close>

definition call_fifo_StartTransaction ::
  "Env \<Rightarrow> StartTransactionReq \<Rightarrow> State \<Rightarrow> StartTransactionConf option \<times> State" where
  "call_fifo_StartTransaction env req s =
     (let payload = StartTransactionReq_toJson env req in
      case call_StartTransaction env (trace s) payload of
        Some conf \<Rightarrow> (Some conf, emit (EvCall START_TRANSACTION_ACTION payload True Ok) s)
      | None \<Rightarrow>
          (None, fifo_push START_TRANSACTION_ACTION payload
                   (emit (EvCall START_TRANSACTION_ACTION payload True Failed) s)))"

definition call_fifo_StopTransaction ::
  "Env \<Rightarrow> StopTransactionReq \<Rightarrow> State \<Rightarrow> StopTransactionConf option \<times> State" where
  "call_fifo_StopTransaction env req s =
     (let payload = StopTransactionReq_toJson env req in
      case call_StopTransaction env (trace s) payload of
        Some conf \<Rightarrow> (Some conf, emit (EvCall STOP_TRANSACTION_ACTION payload True Ok) s)
      | None \<Rightarrow>
          (None, fifo_push STOP_TRANSACTION_ACTION payload
                   (emit (EvCall STOP_TRANSACTION_ACTION payload True Failed) s)))"

section \<open>startTransaction\<close>

text \<open>The request as prepared before the reservations are looked at.\<close>

definition prepare_start_req ::
  "Env \<Rightarrow> nat \<Rightarrow> string \<Rightarrow> State \<Rightarrow> StartTransactionReq \<times> State" where
  "prepare_start_req env connector_id id_tag s =
     (let meter = getTxStartStopMeterValue env (trace s) connector_id;
          s1 = emit (EvGetTxStartStopMeterValue connector_id meter) s;
          ts = now env (trace s1);
          s2 = emit (EvNow ts) s1
      in (\<lparr>connectorId = connector_id, idTag = assign_idTag env id_tag, meterStart = meter,
           timestamp = ts, reservationId = None\<rparr>, s2))"

text \<open>The block "Check reservations": it stamps the reservation id and clears the reservation.\<close>

definition check_reservations ::
  "Env \<Rightarrow> Connector \<Rightarrow> nat \<Rightarrow> string \<Rightarrow> StartTransactionReq \<Rightarrow> State
     \<Rightarrow> StartTransactionReq \<times> State" where
  "check_reservations env connector connector_id id_tag req s =
     (if Connector.status connector = Reserved then
        (req\<lparr>reservationId := Some (reservation_id connector)\<rparr>,
         emit (EvClearReservation connector_id) s)
      else if reserveConnectorZeroSupported env then
        (let cp = getChargePointConnector (connectors s) in
         if Connector.status cp = Reserved then
           (let r0 = isTransactionAllowed env (trace s) CONNECTOR_ID_CHARGE_POINT id_tag;
                s1 = emit (EvIsTransactionAllowed CONNECTOR_ID_CHARGE_POINT id_tag r0) s
            in if r0 = AuthorizationStatus.Accepted then
                 (req\<lparr>reservationId := Some (reservation_id cp)\<rparr>,
                  emit (EvClearReservation connector_id) s1)
               else (req, s1))
         else (req, s))
      else (req, s))"

text \<open>The branch taken when the final status is Accepted.\<close>

definition start_accepted ::
  "Env \<Rightarrow> Connector \<Rightarrow> nat \<Rightarrow> string \<Rightarrow> int \<Rightarrow> State \<Rightarrow> State" where
  "start_accepted env connector connector_id id_tag tid s =
     (let ts = now env (trace s);
          s1 = emit (EvNow ts) s;
          connector' = connector\<lparr>transaction_id := tid, transaction_start := ts,
                                 transaction_id_tag := id_tag\<rparr>;
          s2 = s1\<lparr>connectors := setConnector (connectors s1) connector_id connector'\<rparr>;
          s3 = saveConnector (id_c connector') s2;
          s4 = emit (EvAssignPendingTxProfiles connector_id (transaction_id connector')) s3
      in emit (EvStartSampledMeterValues connector_id) s4)"

text \<open>
  The branch taken when the final status is not Accepted: a stop request closes the
  transaction id of the response in the central system.
\<close>

definition start_refused ::
  "Env \<Rightarrow> StartTransactionReq \<Rightarrow> int \<Rightarrow> State \<Rightarrow> State" where
  "start_refused env req tid s =
     (let stop_req = \<lparr>stop_transactionId = tid, stop_idTag = None,
                      meterStop = meterStart req, stop_timestamp = timestamp req,
                      reason = DeAuthorized, transactionData = []\<rparr>
      in snd (call_fifo_StopTransaction env stop_req s))"

text \<open>The request that is sent: prepared, then stamped with the reservation.\<close>

definition start_request ::
  "Env \<Rightarrow> Connector \<Rightarrow> nat \<Rightarrow> string \<Rightarrow> State \<Rightarrow> StartTransactionReq \<times> State" where
  "start_request env connector connector_id id_tag s =
     (let (req0, s1) = prepare_start_req env connector_id id_tag s
      in check_reservations env connector connector_id id_tag req0 s1)"

definition startTransaction ::
  "Env \<Rightarrow> nat \<Rightarrow> string \<Rightarrow> State \<Rightarrow> AuthorizationStatus \<times> State" where
  "startTransaction env connector_id id_tag s =
     (if connector_id \<noteq> 0 then
        (case getConnector (connectors s) connector_id of
           None \<Rightarrow> (Invalid, s)
         | Some connector \<Rightarrow>
             (let ret0 = isTransactionAllowed env (trace s) connector_id id_tag;
                  s1 = emit (EvIsTransactionAllowed connector_id id_tag ret0) s
              in if ret0 = AuthorizationStatus.Accepted then
                   (let (req, s3) = start_request env connector connector_id id_tag s1;
                        (result, s4) = call_fifo_StartTransaction env req s3;
                        (ret, tid, s5) =
                          (case result of
                             Some conf \<Rightarrow>
                               (let r = auth_status (idTagInfo conf) in
                                (r, transactionId conf,
                                 if r \<noteq> ConcurrentTx
                                 then emit (EvAuthentUpdate id_tag (idTagInfo conf)) s4
                                 else s4))
                           | None \<Rightarrow> (AuthorizationStatus.Accepted, - 1, s4))
                    in if ret = AuthorizationStatus.Accepted
                       then (ret, start_accepted env connector connector_id id_tag tid s5)
                       else (ret, start_refused env req tid s5))
                 else (ret0, s1)))
      else (Invalid, s))"

section \<open>stopTransaction\<close>

text \<open>The stop request as built before the connector is reset.\<close>

definition stop_request ::
  "Env \<Rightarrow> Connector \<Rightarrow> nat \<Rightarrow> string \<Rightarrow> Reason \<Rightarrow> State \<Rightarrow> StopTransactionReq \<times> State" where
  "stop_request env connector connector_id id_tag rsn s =
     (let s1 = emit (EvStopSampledMeterValues connector_id) s;
          meter = getTxStartStopMeterValue env (trace s1) connector_id;
          s2 = emit (EvGetTxStartStopMeterValue connector_id meter) s1;
          ts = now env (trace s2);
          s3 = emit (EvNow ts) s2;
          data = getTxStopMeterValues env (trace s3) connector_id;
          s4 = emit (EvGetTxStopMeterValues connector_id data) s3
      in (\<lparr>stop_transactionId = transaction_id connector,
           stop_idTag = (if id_tag \<noteq> [] then Some (assign_idTag env id_tag) else None),
           meterStop = meter, stop_timestamp = ts,
           reason = rsn, transactionData = data\<rparr>, s4))"

definition stopTransaction ::
  "Env \<Rightarrow> nat \<Rightarrow> string \<Rightarrow> Reason \<Rightarrow> State \<Rightarrow> bool \<times> State" where
  "stopTransaction env connector_id id_tag rsn s =
     (case getConnector (connectors s) connector_id of
        None \<Rightarrow> (False, s)
      | Some connector \<Rightarrow>
          if transaction_id connector \<noteq> 0 then
            (let (stop_req, s4) = stop_request env connector connector_id id_tag rsn s;
                 connector' = connector\<lparr>transaction_id := 0, transaction_id_tag := [],
                                        transaction_start := 0\<rparr>;
                 s5 = s4\<lparr>connectors := setConnector (connectors s4) connector_id connector'\<rparr>;
                 s6 = saveConnector (id_c connector') s5;
                 (result, s7) = call_fifo_StopTransaction env stop_req s6;
                 s8 = (case result of
                         Some conf \<Rightarrow>
                           (case stop_idTagInfo conf of
                              Some info \<Rightarrow> emit (EvAuthentUpdate id_tag info) s7
                            | None \<Rightarrow> s7)
                       | None \<Rightarrow> s7)
             in (True, emit (EvClearTxProfiles connector_id) s8))
          else (False, s))"

section \<open>Remote start\<close>

text \<open>
  handleMessage for RemoteStartTransactionReq. The conjunction of the source is
  evaluated left to right and stops at the first operand that is false, so the
  reservation manager is asked only for an available connector without transaction.
\<close>

definition handleMessage_RemoteStartTransaction ::
  "Env \<Rightarrow> RemoteStartTransactionReq \<Rightarrow> State \<Rightarrow> RemoteStartStopStatus \<times> State" where
  "handleMessage_RemoteStartTransaction env request s =
     (let (authorized, s') =
        (case remote_connectorId request of
           None \<Rightarrow> (False, s)
         | Some cid \<Rightarrow>
             if cid \<noteq> CONNECTOR_ID_CHARGE_POINT then
               (case getConnector (connectors s) cid of
                  None \<Rightarrow> (False, s)
                | Some connector \<Rightarrow>
                    if Connector.status connector \<noteq> Unavailable \<and> transaction_id connector = 0 then
                      (let r = isTransactionAllowed env (trace s) cid (remote_idTag request);
                           s1 = emit (EvIsTransactionAllowed cid (remote_idTag request) r) s
                       in if r = AuthorizationStatus.Accepted then
                            (let a = remoteStartTransactionRequested env (trace s1) cid
                                       (remote_idTag request);
                                 s2 = emit (EvRemoteStartTransactionRequested cid
                                              (remote_idTag request) a) s1
                             in case chargingProfile request of
                                  Some profile \<Rightarrow>
                                    if a then
                                      (let i = installTxProfile env (trace s2) cid profile
                                       in (i, emit (EvInstallTxProfile cid profile i) s2))
                                    else (a, s2)
                                | None \<Rightarrow> (a, s2))
                          else (False, s1))
                    else (False, s))
             else (False, s))
      in (if authorized then RemoteStartStopStatus.Accepted else RemoteStartStopStatus.Rejected,
          s'))"

section \<open>processFifoRequest\<close>

text \<open>
  The sending of the head request, by action: the part of the loop body that sets
  \<open>res\<close>. The sender is called without the FIFO. An unknown action is not sent.
\<close>

definition send_head :: "Env \<Rightarrow> string \<Rightarrow> Document \<Rightarrow> State \<Rightarrow> CallResult \<times> State" where
  "send_head env action payload s =
     (if action = START_TRANSACTION_ACTION then
        (case call_StartTransaction env (trace s) payload of
           Some response \<Rightarrow>
             (let s1 = emit (EvCall action payload False Ok) s;
                  request = StartTransactionReq_fromJson env payload;
                  s2 = (if auth_status (idTagInfo response) \<noteq> ConcurrentTx
                        then emit (EvAuthentUpdate (idTag request) (idTagInfo response)) s1
                        else s1);
                  s3 = (if auth_status (idTagInfo response) \<noteq> AuthorizationStatus.Accepted then
                          (case getConnector (connectors s2) (connectorId request) of
                             Some connector \<Rightarrow>
                               if transaction_id connector = - 1
                                  \<and> transaction_id_tag connector = idTag request
                               then emit (EvTransactionDeAuthorized (id_c connector)) s2
                               else s2
                           | None \<Rightarrow> s2)
                        else s2)
              in (Ok, s3))
         | None \<Rightarrow> (Failed, emit (EvCall action payload False Failed) s))
      else if action = STOP_TRANSACTION_ACTION then
        (case call_StopTransaction env (trace s) payload of
           Some response \<Rightarrow> (Ok, emit (EvCall action payload False Ok) s)
         | None \<Rightarrow> (Failed, emit (EvCall action payload False Failed) s))
      else if action = METER_VALUES_ACTION then
        (if call_MeterValues env (trace s) payload
         then (Ok, emit (EvCall action payload False Ok) s)
         else (Failed, emit (EvCall action payload False Failed) s))
      else (Failed, s))"

text \<open>
  The body of the do-while loop: nothing happens when the FIFO has no front request.
  The retry interval is in seconds, the timer in milliseconds.
\<close>

definition process_head :: "Env \<Rightarrow> State \<Rightarrow> State" where
  "process_head env s =
     (case requests_fifo s of
        [] \<Rightarrow> s
      | (action, payload) # rest \<Rightarrow>
          (let (res, s1) = send_head env action payload s in
           if res = Ok then (fifo_pop s1)\<lparr>request_retry_count := 0\<rparr>
           else
             (let s2 = s1\<lparr>request_retry_count := request_retry_count s1 + 1\<rparr> in
              if request_retry_count s2 > transactionMessageAttempts env
              then (fifo_pop s2)\<lparr>request_retry_count := 0\<rparr>
              else
                (let c = isConnected env (trace s2);
                     s3 = emit (EvIsConnected c) s2
                 in if c then timer_restart (transactionMessageRetryInterval env * 1000) s3
                    else s3))))"

text \<open>
  The do-while loop. Its condition asks the sender for the connection only when the
  FIFO is not empty and the timer is not started.
\<close>

function drain_loop :: "Env \<Rightarrow> State \<Rightarrow> State" where
  "drain_loop env s =
     (let s1 = process_head env s in
      if requests_fifo s1 \<noteq> [] \<and> \<not> timer_isStarted s1 then
        (let c = isConnected env (trace s1);
             s2 = emit (EvIsConnected c) s1
         in if c then drain_loop env s2 else s2)
      else s1)"
  by pat_completeness auto
termination
proof (relation "measures [\<lambda>(env, s). length (requests_fifo s),
                           \<lambda>(env, s). transactionMessageAttempts env + 1 - request_retry_count s]")
  show "wf (measures [\<lambda>(env, s). length (requests_fifo s),
                      \<lambda>(env, s). transactionMessageAttempts env + 1 - request_retry_count s])"
    by simp
next
  fix env :: Env and s s1 :: State and c :: bool and s2 :: State
  assume s1: "s1 = process_head env s"
    and run: "requests_fifo s1 \<noteq> [] \<and> \<not> timer_isStarted s1"
    and s2: "s2 = emit (EvIsConnected c) s1"
  have sent: "requests_fifo (snd (send_head env a p s)) = requests_fifo s
              \<and> request_retry_count (snd (send_head env a p s)) = request_retry_count s
              \<and> request_retry_timer (snd (send_head env a p s)) = request_retry_timer s"
    for a p
    by (simp add: send_head_def emit_def Let_def split: option.split)
  have "length (requests_fifo s1) < length (requests_fifo s)
        \<or> (length (requests_fifo s1) = length (requests_fifo s)
            \<and> transactionMessageAttempts env + 1 - request_retry_count s1
                < transactionMessageAttempts env + 1 - request_retry_count s)"
  proof (cases "requests_fifo s")
    case Nil
    then have "s1 = s" by (simp add: s1 process_head_def)
    with run Nil show ?thesis by simp
  next
    case (Cons e rest)
    obtain a p where e: "e = (a, p)" by (cases e)
    obtain res s' where sh: "send_head env a p s = (res, s')" by (cases "send_head env a p s")
    from sent [of a p] sh Cons
    have keep: "requests_fifo s' = e # rest" "request_retry_count s' = request_retry_count s"
      by simp_all
    show ?thesis
      using run keep
      by (simp add: s1 process_head_def Cons e sh fifo_pop_def emit_def timer_restart_def
          timer_isStarted_def Let_def split: if_splits)
  qed
  then show "((env, s2), (env, s)) \<in> measures [\<lambda>(env, s). length (requests_fifo s),
                      \<lambda>(env, s). transactionMessageAttempts env + 1 - request_retry_count s]"
    by (auto simp: s2 emit_def)
qed

definition processFifoRequest :: "Env \<Rightarrow> State \<Rightarrow> State" where
  "processFifoRequest env s =
     (let c = isConnected env (trace s);
          s1 = emit (EvIsConnected c) s
      in if c then
           (let r = getRegistrationStatus env (trace s1);
                s2 = emit (EvGetRegistrationStatus r) s1
            in if r = RegistrationStatus.Accepted then drain_loop env s2
               else timer_restart 250 s2)
         else s1)"

text \<open>
  updateConnectionStatus hands processFifoRequest to the worker pool; the job is taken
  here as run to its end.
\<close>

definition updateConnectionStatus :: "Env \<Rightarrow> bool \<Rightarrow> State \<Rightarrow> State" where
  "updateConnectionStatus env is_connected s =
     (if is_connected then
        (if length (requests_fifo s) \<noteq> 0 then processFifoRequest env s else s)
      else s)"

section \<open>The transaction manager over time\<close>

text \<open>
  The constructor: the FIFO is loaded from the database, the retry count is 0 and the
  timer is not started.
\<close>

definition TransactionManager_init :: "Connectors \<Rightarrow> (string \<times> Document) list \<Rightarrow> State" where
  "TransactionManager_init cs fifo =
     \<lparr>connectors = cs, requests_fifo = fifo, request_retry_timer = None,
      request_retry_count = 0, trace = []\<rparr>"

text \<open>
  The callback that the constructor gives to the retry timer: when the single-shot
  timer expires it is no longer started, and processFifoRequest is run.
\<close>

definition timer_expired :: "Env \<Rightarrow> State \<Rightarrow> State" where
  "timer_expired env s =
     (if timer_isStarted s then processFifoRequest env (s\<lparr>request_retry_timer := None\<rparr>)
      else s)"

text \<open>
  What can happen to a transaction manager: the calls of its public functions, the
  expiry of its timer, and a request that the meter values manager appends to the
  FIFO it was given.
\<close>

datatype Op =
    OpStartTransaction nat string
  | OpStopTransaction nat string Reason
  | OpRemoteStart RemoteStartTransactionReq
  | OpUpdateConnectionStatus bool
  | OpProcessFifoRequest
  | OpTimerExpired
  | OpMeterValuesQueued Document

fun step :: "Env \<Rightarrow> State \<Rightarrow> Op \<Rightarrow> State" where
  "step env s (OpStartTransaction connector_id id_tag) =
     snd (startTransaction env connector_id id_tag s)"
| "step env s (OpStopTransaction connector_id id_tag rsn) =
     snd (stopTransaction env connector_id id_tag rsn s)"
| "step env s (OpRemoteStart request) = snd (handleMessage_RemoteStartTransaction env request s)"
| "step env s (OpUpdateConnectionStatus is_connected) = updateConnectionStatus env is_connected s"
| "step env s OpProcessFifoRequest = processFifoRequest env s"
| "step env s OpTimerExpired = timer_expired env s"
| "step env s (OpMeterValuesQueued payload) = fifo_push METER_VALUES_ACTION payload s"

definition run :: "Env \<Rightarrow> Op list \<Rightarrow> State \<Rightarrow> State" where
  "run env ops s = foldl (step env) s ops"

section \<open>Properties of the record of events\<close>

text \<open>A call of the message sender.\<close>

fun is_call :: "Event \<Rightarrow> bool" where
  "is_call (EvCall action payload with_fifo res) = True"
| "is_call e = False"

text \<open>A send of processFifoRequest: a call of the sender without the FIFO.\<close>

fun is_drain_send :: "Event \<Rightarrow> bool" where
  "is_drain_send (EvCall action payload with_fifo res) = (\<not> with_fifo)"
| "is_drain_send e = False"

text \<open>
  The gate is open when the last thing that happened is that the sender reported a
  connection, or that it did so and the status manager then reported Accepted.
\<close>

fun gate_open :: "Event list \<Rightarrow> bool" where
  "gate_open (EvIsConnected c # es) = c"
| "gate_open (EvGetRegistrationStatus r # EvIsConnected c # es) =
     (r = RegistrationStatus.Accepted \<and> c)"
| "gate_open es = False"

text \<open>Every send of processFifoRequest in the record happened with the gate open.\<close>

fun sends_gated :: "Event list \<Rightarrow> bool" where
  "sends_gated [] = True"
| "sends_gated (e # es) = ((is_drain_send e \<longrightarrow> gate_open es) \<and> sends_gated es)"

text \<open>The number of sends of processFifoRequest since the last pop of the FIFO.\<close>

fun pending_sends :: "Event list \<Rightarrow> nat" where
  "pending_sends [] = 0"
| "pending_sends (e # es) =
     (if e = EvFifoPop then 0
      else if is_drain_send e then Suc (pending_sends es)
      else pending_sends es)"

text \<open>The requests of these sends: action and payload, the most recent first.\<close>

fun pending_calls :: "Event list \<Rightarrow> (string \<times> Document) list" where
  "pending_calls [] = []"
| "pending_calls (EvFifoPop # es) = []"
| "pending_calls (EvCall action payload False res # es) = (action, payload) # pending_calls es"
| "pending_calls (e # es) = pending_calls es"

text \<open>At no time were there more than \<open>n\<close> such sends since the last pop.\<close>

fun sends_bounded :: "nat \<Rightarrow> Event list \<Rightarrow> bool" where
  "sends_bounded n [] = True"
| "sends_bounded n (e # es) = (pending_sends (e # es) \<le> n \<and> sends_bounded n es)"

text \<open>
  An event that is neither a send of processFifoRequest nor a pop of the FIFO, and a
  record that continues another one by such events only.
\<close>

definition is_passive :: "Event \<Rightarrow> bool" where
  "is_passive e = (\<not> is_drain_send e \<and> e \<noteq> EvFifoPop)"

fun extends_passively :: "Event list \<Rightarrow> Event list \<Rightarrow> bool" where
  "extends_passively base [] = (base = [])"
| "extends_passively base (e # es) =
     (e # es = base \<or> (is_passive e \<and> extends_passively base es))"

text \<open>
  The sends of processFifoRequest since the last pop were all sends of the request
  that is now the head of the FIFO.
\<close>

definition pending_for_head :: "State \<Rightarrow> bool" where
  "pending_for_head s =
     (case requests_fifo s of
        [] \<Rightarrow> pending_calls (trace s) = []
      | e # rest \<Rightarrow> list_all (\<lambda>x. x = e) (pending_calls (trace s)))"

text \<open>
  What the retry count promises about the record: never more than
  TransactionMessageAttempts + 1 sends since the last pop, no more sends since the
  last pop than the retry count says, a retry count within the attempts, and all
  these sends for the head of the FIFO.
\<close>

definition retry_inv :: "Env \<Rightarrow> State \<Rightarrow> bool" where
  "retry_inv env s =
     (sends_bounded (transactionMessageAttempts env + 1) (trace s)
      \<and> pending_sends (trace s) \<le> request_retry_count s
      \<and> request_retry_count s \<le> transactionMessageAttempts env
      \<and> pending_for_head s)"

text \<open>
  The conditions of a remote start in the words of the specification: the connector
  id is set and not 0, the connector exists, it is not Unavailable, it has no
  transaction, and the reservation manager allows the id tag on it.
\<close>

definition remote_start_preconditions :: "Env \<Rightarrow> RemoteStartTransactionReq \<Rightarrow> State \<Rightarrow> bool" where
  "remote_start_preconditions env request s =
     (case remote_connectorId request of
        None \<Rightarrow> False
      | Some cid \<Rightarrow>
          cid \<noteq> 0 \<and>
          (case getConnector (connectors s) cid of
             None \<Rightarrow> False
           | Some c \<Rightarrow>
               Connector.status c \<noteq> Unavailable \<and> transaction_id c = 0 \<and>
               isTransactionAllowed env (trace s) cid (remote_idTag request)
                 = AuthorizationStatus.Accepted))"

text \<open>
  An operation that continues the record passively, keeps the retry count and at most
  appends to the FIFO.
\<close>

definition passive_op :: "State \<Rightarrow> State \<Rightarrow> bool" where
  "passive_op s s' =
     (extends_passively (trace s) (trace s') \<and> request_retry_count s' = request_retry_count s
      \<and> take (length (requests_fifo s)) (requests_fifo s') = requests_fifo s)"

section \<open>Scenarios\<close>

definition idle_connector :: "nat \<Rightarrow> Connector" where
  "idle_connector i =
     \<lparr>id_c = i, status = Available, transaction_id = 0, transaction_start = 0,
      transaction_id_tag = [], reservation_id = 0\<rparr>"

definition two_connectors :: Connectors where
  "two_connectors = \<lparr>charge_point = idle_connector 0,
                      physical = [idle_connector 1, idle_connector 2]\<rparr>"

text \<open>
  A charge point whose sender fails every call while it reports a connection and the
  central system has accepted the registration; three attempts, sixty seconds.
\<close>

definition failing_env :: Env where
  "failing_env =
     \<lparr>reserveConnectorZeroSupported = False,
      transactionMessageAttempts = 3,
      transactionMessageRetryInterval = 60,
      isTransactionAllowed = (\<lambda>t i tag. AuthorizationStatus.Accepted),
      getTxStartStopMeterValue = (\<lambda>t i. 1000),
      now = (\<lambda>t. int (length t)),
      getTxStopMeterValues = (\<lambda>t i. []),
      remoteStartTransactionRequested = (\<lambda>t i tag. True),
      installTxProfile = (\<lambda>t i p. False),
      isConnected = (\<lambda>t. True),
      getRegistrationStatus = (\<lambda>t. RegistrationStatus.Accepted),
      call_StartTransaction = (\<lambda>t d. None),
      call_StopTransaction = (\<lambda>t d. None),
      call_MeterValues = (\<lambda>t d. False),
      assign_idTag = take 20,
      StartTransactionReq_toJson = (\<lambda>r. idTag r),
      StopTransactionReq_toJson = (\<lambda>r. case stop_idTag r of Some tag \<Rightarrow> tag | None \<Rightarrow> []),
      StartTransactionReq_fromJson =
        (\<lambda>d. \<lparr>connectorId = 1, idTag = d, meterStart = 0, timestamp = 0,
                reservationId = None\<rparr>)\<rparr>"

text \<open>The central system answers a start with the given transaction id and status.\<close>

definition answering_env :: "int \<Rightarrow> AuthorizationStatus \<Rightarrow> Env" where
  "answering_env tid st =
     failing_env\<lparr>call_StartTransaction :=
       (\<lambda>t d. Some \<lparr>transactionId = tid,
                      idTagInfo = \<lparr>auth_status = st, expiryDate = None, parentIdTag = None\<rparr>\<rparr>),
       call_StopTransaction := (\<lambda>t d. Some \<lparr>stop_idTagInfo = None\<rparr>),
       call_MeterValues := (\<lambda>t d. True)\<rparr>"

text \<open>Connector 1 has the transaction 10 of the tag TAG01.\<close>

definition busy_state :: State where
  "busy_state =
     TransactionManager_init
       (two_connectors\<lparr>physical :=
          [(idle_connector 1)\<lparr>transaction_id := 10, transaction_id_tag := ''TAG01'',
                               transaction_start := 5\<rparr>, idle_connector 2]\<rparr>) []"

text \<open>The same charge point without connection, and not yet accepted.\<close>

definition offline_env :: Env where
  "offline_env = failing_env\<lparr>isConnected := (\<lambda>t. False)\<rparr>"

definition pending_env :: Env where
  "pending_env = failing_env\<lparr>getRegistrationStatus := (\<lambda>t. Pending)\<rparr>"

text \<open>
  Connector 1 has a provisional transaction of the tag TAG02, whose start request is
  the head of the FIFO, followed by a stop request.
\<close>

definition provisional_state :: State where
  "provisional_state =
     TransactionManager_init
       (two_connectors\<lparr>physical :=
          [(idle_connector 1)\<lparr>transaction_id := - 1, transaction_id_tag := ''TAG02'',
                               transaction_start := 5\<rparr>, idle_connector 2]\<rparr>)
       [(START_TRANSACTION_ACTION, ''TAG02''), (STOP_TRANSACTION_ACTION, ''TAG02'')]"

text \<open>A FIFO whose head has an action that processFifoRequest does not know.\<close>

definition unknown_head_state :: State where
  "unknown_head_state =
     TransactionManager_init two_connectors
       [(''Heartbeat'', ''{}''), (STOP_TRANSACTION_ACTION, ''TAG02'')]"

declare drain_loop.simps [simp del]

section \<open>Basic facts\<close>

lemma getConnector_setConnector:
  "getConnector cs i \<noteq> None \<Longrightarrow> getConnector (setConnector cs i c) i = Some c"
  by (auto simp: getConnector_def setConnector_def split: if_splits)

lemma trace_emit [simp]: "trace (emit e s) = e # trace s"
  and fifo_emit [simp]: "requests_fifo (emit e s) = requests_fifo s"
  and connectors_emit [simp]: "connectors (emit e s) = connectors s"
  and count_emit [simp]: "request_retry_count (emit e s) = request_retry_count s"
  and timer_emit [simp]: "request_retry_timer (emit e s) = request_retry_timer s"
  by (simp_all add: emit_def)

lemma start_request_keeps:
  "start_request env c i tag s = (req, s') \<Longrightarrow>
     connectors s' = connectors s \<and> requests_fifo s' = requests_fifo s
     \<and> request_retry_count s' = request_retry_count s
     \<and> request_retry_timer s' = request_retry_timer s"
  by (auto simp: start_request_def prepare_start_req_def check_reservations_def Let_def
      split: if_splits)

lemma stop_request_keeps:
  "stop_request env c i tag rsn s = (req, s') \<Longrightarrow>
     connectors s' = connectors s \<and> requests_fifo s' = requests_fifo s
     \<and> request_retry_count s' = request_retry_count s
     \<and> request_retry_timer s' = request_retry_timer s"
  by (auto simp: stop_request_def Let_def)

lemma send_head_keeps:
  "send_head env a p s = (res, s') \<Longrightarrow>
     connectors s' = connectors s \<and> requests_fifo s' = requests_fifo s
     \<and> request_retry_count s' = request_retry_count s
     \<and> request_retry_timer s' = request_retry_timer s"
  by (auto simp: send_head_def Let_def split: if_splits option.splits)

subsection \<open>Operations that neither send from the FIFO nor pop it\<close>

lemma extends_passively_refl [simp]: "extends_passively base base"
  by (cases base) simp_all

lemma extends_passively_trans:
  "extends_passively b c \<Longrightarrow> extends_passively a b \<Longrightarrow> extends_passively a c"
  by (induction c) (auto split: if_splits)

lemma sends_gated_extends:
  "extends_passively base tr \<Longrightarrow> sends_gated base \<Longrightarrow> sends_gated tr"
  by (induction tr) (auto simp: is_passive_def)

lemma pending_sends_extends:
  "extends_passively base tr \<Longrightarrow> pending_sends tr = pending_sends base"
  by (induction tr) (auto simp: is_passive_def)

lemma pending_calls_extends:
  "extends_passively base tr \<Longrightarrow> pending_calls tr = pending_calls base"
proof (induction tr)
  case Nil
  then show ?case by simp
next
  case (Cons e es)
  show ?case
  proof (cases "e # es = base")
    case True
    then show ?thesis by simp
  next
    case False
    with Cons.prems have p: "is_passive e" and ext: "extends_passively base es" by simp_all
    have "pending_calls (e # es) = pending_calls es"
      using p by (cases e) (auto simp: is_passive_def)
    with Cons.IH [OF ext] show ?thesis by simp
  qed
qed

lemma sends_bounded_extends:
  "extends_passively base tr \<Longrightarrow> sends_bounded n base \<Longrightarrow> sends_bounded n tr"
proof (induction tr)
  case Nil
  then show ?case by simp
next
  case (Cons e es)
  show ?case
  proof (cases "e # es = base")
    case True
    with Cons.prems show ?thesis by simp
  next
    case False
    with Cons.prems have p: "is_passive e" and ext: "extends_passively base es" by simp_all
    from Cons.IH [OF ext Cons.prems(2)] have b: "sends_bounded n es" .
    have "pending_sends (e # es) = pending_sends es" using p by (simp add: is_passive_def)
    moreover have "pending_sends es \<le> n" using b by (cases es) simp_all
    ultimately show ?thesis using b by simp
  qed
qed

lemma passive_op_refl [simp]: "passive_op s s"
  by (simp add: passive_op_def)

lemma take_length_trans:
  assumes "take (length a) b = a" and "take (length b) c = b"
  shows "take (length a) c = a"
proof -
  have "length a \<le> length b" using assms(1) by (metis length_take min.cobounded1)
  then have "take (length a) c = take (length a) (take (length b) c)"
    by (simp add: min_def)
  then show ?thesis using assms by simp
qed

lemma passive_op_trans: "passive_op s s' \<Longrightarrow> passive_op s' s'' \<Longrightarrow> passive_op s s''"
  by (auto simp: passive_op_def intro: extends_passively_trans take_length_trans)

lemma passive_op_emit: "is_passive e \<Longrightarrow> passive_op s (emit e s)"
  by (simp add: passive_op_def)

lemma start_request_passive: "start_request env c i tag s = (req, s') \<Longrightarrow> passive_op s s'"
  by (auto simp: start_request_def prepare_start_req_def check_reservations_def Let_def
      passive_op_def is_passive_def split: if_splits)

lemma stop_request_passive: "stop_request env c i tag rsn s = (req, s') \<Longrightarrow> passive_op s s'"
  by (auto simp: stop_request_def Let_def passive_op_def is_passive_def)

lemma call_fifo_StartTransaction_passive:
  "call_fifo_StartTransaction env req s = (res, s') \<Longrightarrow> passive_op s s'"
  by (auto simp: call_fifo_StartTransaction_def fifo_push_def Let_def passive_op_def
      is_passive_def split: option.splits)

lemma call_fifo_StopTransaction_passive:
  "call_fifo_StopTransaction env req s = (res, s') \<Longrightarrow> passive_op s s'"
  by (auto simp: call_fifo_StopTransaction_def fifo_push_def Let_def passive_op_def
      is_passive_def split: option.splits)

lemma start_accepted_passive: "passive_op s (start_accepted env c i tag tid s)"
  by (simp add: start_accepted_def saveConnector_def Let_def passive_op_def is_passive_def)

lemma start_refused_passive: "passive_op s (start_refused env req tid s)"
  using call_fifo_StopTransaction_passive [of env _ s]
  by (simp add: start_refused_def Let_def) (metis prod.collapse)

lemma startTransaction_passive: "passive_op s (snd (startTransaction env i tag s))"
proof (cases "i \<noteq> 0 \<and> getConnector (connectors s) i \<noteq> None
              \<and> isTransactionAllowed env (trace s) i tag = AuthorizationStatus.Accepted")
  case False
  then show ?thesis
    by (auto simp: startTransaction_def Let_def passive_op_def is_passive_def
        split: option.splits)
next
  case True
  then obtain c where c: "getConnector (connectors s) i = Some c" by auto
  let ?s1 = "emit (EvIsTransactionAllowed i tag AuthorizationStatus.Accepted) s"
  obtain req s3 where rq: "start_request env c i tag ?s1 = (req, s3)"
    by (cases "start_request env c i tag ?s1")
  obtain res s4 where cl: "call_fifo_StartTransaction env req s3 = (res, s4)"
    by (cases "call_fifo_StartTransaction env req s3")
  have p1: "passive_op s ?s1" by (simp add: passive_op_emit is_passive_def)
  note p3 = passive_op_trans [OF p1 start_request_passive [OF rq]]
  note p4 = passive_op_trans [OF p3 call_fifo_StartTransaction_passive [OF cl]]
  have p5: "passive_op s (emit (EvAuthentUpdate tag info) s4)" for info
    by (rule passive_op_trans [OF p4]) (simp add: passive_op_emit is_passive_def)
  show ?thesis
    using True c rq cl p4 p5
    by (auto simp: startTransaction_def Let_def split: option.splits
        intro: passive_op_trans [OF _ start_accepted_passive]
               passive_op_trans [OF _ start_refused_passive])
qed

lemma stopTransaction_passive: "passive_op s (snd (stopTransaction env i tag rsn s))"
proof (cases "\<exists>c. getConnector (connectors s) i = Some c \<and> transaction_id c \<noteq> 0")
  case False
  then show ?thesis by (auto simp: stopTransaction_def split: option.splits)
next
  case True
  then obtain c where c: "getConnector (connectors s) i = Some c" "transaction_id c \<noteq> 0" by auto
  obtain req s4 where rq: "stop_request env c i tag rsn s = (req, s4)"
    by (cases "stop_request env c i tag rsn s")
  let ?c' = "c\<lparr>transaction_id := 0, transaction_id_tag := [], transaction_start := 0\<rparr>"
  let ?s6 = "saveConnector (id_c ?c') (s4\<lparr>connectors := setConnector (connectors s4) i ?c'\<rparr>)"
  obtain res s7 where cl: "call_fifo_StopTransaction env req ?s6 = (res, s7)"
    by (cases "call_fifo_StopTransaction env req ?s6")
  have p6: "passive_op s4 ?s6"
    by (simp add: saveConnector_def passive_op_def is_passive_def)
  note p7 = passive_op_trans [OF passive_op_trans [OF stop_request_passive [OF rq] p6]
      call_fifo_StopTransaction_passive [OF cl]]
  have p8: "passive_op s (emit e s7)" if "is_passive e" for e
    by (rule passive_op_trans [OF p7]) (simp add: passive_op_emit that)
  have p9: "passive_op s (emit e' (emit e s7))" if "is_passive e" "is_passive e'" for e e'
    by (rule passive_op_trans [OF p8 [OF that(1)]]) (simp add: passive_op_emit that)
  show ?thesis
    using c rq cl p8 p9
    by (simp add: stopTransaction_def Let_def is_passive_def split: option.splits)
qed

lemma remote_start_passive:
  "passive_op s (snd (handleMessage_RemoteStartTransaction env request s))"
  by (auto simp: handleMessage_RemoteStartTransaction_def Let_def passive_op_def is_passive_def
      split: option.splits if_splits prod.splits)

lemma fifo_push_passive: "passive_op s (fifo_push a p s)"
  by (simp add: fifo_push_def passive_op_def is_passive_def)

subsection \<open>The drainer and the gate\<close>

lemma send_head_gated:
  "send_head env a p s = (res, s') \<Longrightarrow> sends_gated (trace s) \<Longrightarrow> gate_open (trace s)
     \<Longrightarrow> sends_gated (trace s')"
  by (auto simp: send_head_def Let_def split: if_splits option.splits)

lemma process_head_gated:
  assumes "sends_gated (trace s)" and "gate_open (trace s)"
  shows "sends_gated (trace (process_head env s))"
proof (cases "requests_fifo s")
  case Nil
  with assms show ?thesis by (simp add: process_head_def)
next
  case (Cons e rest)
  obtain a p where e: "e = (a, p)" by (cases e)
  obtain res s1 where sh: "send_head env a p s = (res, s1)" by (cases "send_head env a p s")
  from send_head_gated [OF sh assms] have "sends_gated (trace s1)" .
  then show ?thesis
    by (simp add: process_head_def Cons e sh fifo_pop_def timer_restart_def Let_def)
qed

lemma drain_loop_gated:
  "sends_gated (trace s) \<Longrightarrow> gate_open (trace s) \<Longrightarrow> sends_gated (trace (drain_loop env s))"
proof (induction env s rule: drain_loop.induct)
  case (1 env s)
  let ?s1 = "process_head env s"
  have g1: "sends_gated (trace ?s1)" using "1.prems" by (rule process_head_gated)
  show ?case
  proof (cases "requests_fifo ?s1 \<noteq> [] \<and> \<not> timer_isStarted ?s1")
    case False
    then show ?thesis using g1 by (subst drain_loop.simps) (auto simp: Let_def)
  next
    case True
    show ?thesis
    proof (cases "isConnected env (trace ?s1)")
      case False
      then show ?thesis using g1 True by (subst drain_loop.simps) (simp add: Let_def)
    next
      case c: True
      let ?s2 = "emit (EvIsConnected True) ?s1"
      have "sends_gated (trace (drain_loop env ?s2))"
        using "1.IH" [OF refl True refl _ c] g1 c by simp
      then show ?thesis using True c by (subst drain_loop.simps) (simp add: Let_def)
    qed
  qed
qed

lemma processFifoRequest_gated:
  "sends_gated (trace s) \<Longrightarrow> sends_gated (trace (processFifoRequest env s))"
  by (simp add: processFifoRequest_def Let_def timer_restart_def drain_loop_gated)

lemma passive_op_gated: "passive_op s s' \<Longrightarrow> sends_gated (trace s) \<Longrightarrow> sends_gated (trace s')"
  by (auto simp: passive_op_def intro: sends_gated_extends)

lemma step_gated: "sends_gated (trace s) \<Longrightarrow> sends_gated (trace (step env s op))"
proof (cases op)
  case (OpStartTransaction i tag)
  assume "sends_gated (trace s)"
  with startTransaction_passive [of s env i tag] show ?thesis
    by (simp add: OpStartTransaction passive_op_gated)
next
  case (OpStopTransaction i tag rsn)
  assume "sends_gated (trace s)"
  with stopTransaction_passive [of s env i tag rsn] show ?thesis
    by (simp add: OpStopTransaction passive_op_gated)
next
  case (OpRemoteStart request)
  assume "sends_gated (trace s)"
  with remote_start_passive [of s env request] show ?thesis
    by (simp add: OpRemoteStart passive_op_gated)
next
  case (OpUpdateConnectionStatus b)
  assume "sends_gated (trace s)"
  then show ?thesis
    by (simp add: OpUpdateConnectionStatus updateConnectionStatus_def processFifoRequest_gated)
next
  case OpProcessFifoRequest
  assume "sends_gated (trace s)"
  then show ?thesis by (simp add: OpProcessFifoRequest processFifoRequest_gated)
next
  case OpTimerExpired
  assume "sends_gated (trace s)"
  then show ?thesis by (simp add: OpTimerExpired timer_expired_def processFifoRequest_gated)
next
  case (OpMeterValuesQueued payload)
  assume "sends_gated (trace s)"
  with fifo_push_passive [of s METER_VALUES_ACTION payload] show ?thesis
    by (simp add: OpMeterValuesQueued passive_op_gated)
qed

lemma run_gated: "sends_gated (trace s) \<Longrightarrow> sends_gated (trace (run env ops s))"
  unfolding run_def by (induction ops arbitrary: s) (simp_all add: step_gated)

subsection \<open>The drainer and the retry count\<close>

lemma sends_bounded_pending: "sends_bounded n tr \<Longrightarrow> pending_sends tr \<le> n"
  by (cases tr) simp_all

lemma passive_op_head:
  assumes "passive_op s s'" and "pending_for_head s"
  shows "pending_for_head s'"
proof -
  from assms(1) have calls: "pending_calls (trace s') = pending_calls (trace s)"
    and fifo: "take (length (requests_fifo s)) (requests_fifo s') = requests_fifo s"
    by (simp_all add: passive_op_def pending_calls_extends)
  show ?thesis
  proof (cases "requests_fifo s")
    case Nil
    with assms(2) calls show ?thesis
      by (simp add: pending_for_head_def split: list.split)
  next
    case (Cons e rest)
    with fifo obtain rest' where "requests_fifo s' = e # rest'"
      by (cases "requests_fifo s'") auto
    with assms(2) calls Cons show ?thesis by (simp add: pending_for_head_def)
  qed
qed

lemma passive_op_retry:
  assumes "passive_op s s'" and "retry_inv env s"
  shows "retry_inv env s'"
proof -
  from assms(2) have h: "pending_for_head s" by (simp add: retry_inv_def)
  from passive_op_head [OF assms(1) h] have h': "pending_for_head s'" .
  from assms h' show ?thesis
    by (auto simp: passive_op_def retry_inv_def pending_sends_extends
        intro: sends_bounded_extends)
qed

lemma send_head_retry:
  "send_head env a p s = (res, s1) \<Longrightarrow> sends_bounded n (trace s)
     \<Longrightarrow> Suc (pending_sends (trace s)) \<le> n
     \<Longrightarrow> sends_bounded n (trace s1) \<and> pending_sends (trace s1) \<le> Suc (pending_sends (trace s))"
  by (auto simp: send_head_def Let_def split: if_splits option.splits)

lemma send_head_calls:
  "send_head env a p s = (res, s1) \<Longrightarrow> list_all (\<lambda>x. x = (a, p)) (pending_calls (trace s))
     \<Longrightarrow> list_all (\<lambda>x. x = (a, p)) (pending_calls (trace s1))"
  by (auto simp: send_head_def Let_def split: if_splits option.splits)

lemma process_head_retry:
  assumes "retry_inv env s"
  shows "retry_inv env (process_head env s)"
proof (cases "requests_fifo s")
  case Nil
  with assms show ?thesis by (simp add: process_head_def)
next
  case (Cons e rest)
  obtain a p where e: "e = (a, p)" by (cases e)
  obtain res s1 where sh: "send_head env a p s = (res, s1)" by (cases "send_head env a p s")
  let ?n = "transactionMessageAttempts env + 1"
  from assms have b: "sends_bounded ?n (trace s)"
    and p: "Suc (pending_sends (trace s)) \<le> ?n"
    and pc: "pending_sends (trace s) \<le> request_retry_count s"
    and h: "list_all (\<lambda>x. x = (a, p)) (pending_calls (trace s))"
    by (simp_all add: retry_inv_def pending_for_head_def Cons e)
  from send_head_calls [OF sh h] send_head_keeps [OF sh]
  have h1: "list_all (\<lambda>x. x = (a, p)) (pending_calls (trace s1))"
    and f1: "requests_fifo s1 = (a, p) # rest" by (simp_all add: Cons e)
  from send_head_retry [OF sh b p]
  have b1: "sends_bounded ?n (trace s1)"
    and p1: "pending_sends (trace s1) \<le> Suc (pending_sends (trace s))" by simp_all
  from send_head_keeps [OF sh] have c1: "request_retry_count s1 = request_retry_count s" by simp
  from sends_bounded_pending [OF b1] have q1: "pending_sends (trace s1) \<le> ?n" .
  show ?thesis
    using b1 p1 pc c1 q1 h1 f1
    by (simp add: process_head_def Cons e sh fifo_pop_def timer_restart_def Let_def
        retry_inv_def pending_for_head_def split: list.split)
qed

lemma drain_loop_retry: "retry_inv env s \<Longrightarrow> retry_inv env (drain_loop env s)"
proof (induction env s rule: drain_loop.induct)
  case (1 env s)
  let ?s1 = "process_head env s"
  have r1: "retry_inv env ?s1" using "1.prems" by (rule process_head_retry)
  have r2: "retry_inv env (emit (EvIsConnected c) ?s1)" for c
    by (rule passive_op_retry [OF passive_op_emit r1]) (simp add: is_passive_def)
  show ?case
  proof (cases "requests_fifo ?s1 \<noteq> [] \<and> \<not> timer_isStarted ?s1")
    case False
    then show ?thesis using r1 by (subst drain_loop.simps) (auto simp: Let_def)
  next
    case True
    show ?thesis
    proof (cases "isConnected env (trace ?s1)")
      case False
      then show ?thesis using r2 True by (subst drain_loop.simps) (simp add: Let_def)
    next
      case c: True
      have "retry_inv env (drain_loop env (emit (EvIsConnected True) ?s1))"
        using "1.IH" [OF refl True refl _ c] r2 c by simp
      then show ?thesis using True c by (subst drain_loop.simps) (simp add: Let_def)
    qed
  qed
qed

lemma retry_inv_timer [simp]:
  "retry_inv env (s\<lparr>request_retry_timer := t\<rparr>) = retry_inv env s"
  by (simp add: retry_inv_def pending_for_head_def split: list.split)

lemma processFifoRequest_retry: "retry_inv env s \<Longrightarrow> retry_inv env (processFifoRequest env s)"
proof -
  assume r: "retry_inv env s"
  have r1: "retry_inv env (emit (EvIsConnected c) s)" for c
    by (rule passive_op_retry [OF passive_op_emit r]) (simp add: is_passive_def)
  have r2: "retry_inv env (emit (EvGetRegistrationStatus g) (emit (EvIsConnected c) s))" for c g
    by (rule passive_op_retry [OF passive_op_emit r1]) (simp add: is_passive_def)
  have r3: "retry_inv env (timer_restart 250 (emit (EvGetRegistrationStatus g)
              (emit (EvIsConnected c) s)))" for c g
    unfolding timer_restart_def
    by (rule passive_op_retry [OF passive_op_emit]) (simp_all add: is_passive_def r2)
  show ?thesis
    using r1 r2 r3 by (simp add: processFifoRequest_def Let_def drain_loop_retry)
qed

lemma step_retry: "retry_inv env s \<Longrightarrow> retry_inv env (step env s op)"
proof (cases op)
  case (OpStartTransaction i tag)
  assume "retry_inv env s"
  with startTransaction_passive [of s env i tag] show ?thesis
    by (simp add: OpStartTransaction passive_op_retry)
next
  case (OpStopTransaction i tag rsn)
  assume "retry_inv env s"
  with stopTransaction_passive [of s env i tag rsn] show ?thesis
    by (simp add: OpStopTransaction passive_op_retry)
next
  case (OpRemoteStart request)
  assume "retry_inv env s"
  with remote_start_passive [of s env request] show ?thesis
    by (simp add: OpRemoteStart passive_op_retry)
next
  case (OpUpdateConnectionStatus b)
  assume "retry_inv env s"
  then show ?thesis
    by (simp add: OpUpdateConnectionStatus updateConnectionStatus_def processFifoRequest_retry)
next
  case OpProcessFifoRequest
  assume "retry_inv env s"
  then show ?thesis by (simp add: OpProcessFifoRequest processFifoRequest_retry)
next
  case OpTimerExpired
  assume "retry_inv env s"
  then show ?thesis by (simp add: OpTimerExpired timer_expired_def processFifoRequest_retry)
next
  case (OpMeterValuesQueued payload)
  assume "retry_inv env s"
  with fifo_push_passive [of s METER_VALUES_ACTION payload] show ?thesis
    by (simp add: OpMeterValuesQueued passive_op_retry)
qed

lemma run_retry: "retry_inv env s \<Longrightarrow> retry_inv env (run env ops s)"
  unfolding run_def by (induction ops arbitrary: s) (simp_all add: step_retry)

section \<open>Preconditions of start and stop\<close>

text \<open>
  C5, as the code has it. startTransaction returns Invalid on connector 0 and on a
  connector that does not exist, and stopTransaction returns false on a connector that
  does not exist or has no transaction (transaction id 0); in each case no collaborator
  is called, so no message is sent, and the state is what it was.
\<close>

theorem precondition_violated_no_effect:
  "(i = 0 \<or> getConnector (connectors s) i = None
      \<longrightarrow> startTransaction env i id_tag s = (Invalid, s))
   \<and> (getConnector (connectors s) j = None
        \<or> (\<exists>c. getConnector (connectors s) j = Some c \<and> transaction_id c = 0)
      \<longrightarrow> stopTransaction env j id_tag' rsn s = (False, s))"
  by (auto simp: startTransaction_def stopTransaction_def)

theorem precondition_violated_no_effect_witness:
  "startTransaction failing_env 3 ''TAG01'' (TransactionManager_init two_connectors [])
     = (Invalid, TransactionManager_init two_connectors [])
   \<and> stopTransaction failing_env 1 ''TAG01'' Local (TransactionManager_init two_connectors [])
     = (False, TransactionManager_init two_connectors [])"
proof -
  let ?s = "TransactionManager_init two_connectors []"
  have a: "(3::nat) = 0 \<or> getConnector (connectors ?s) 3 = None"
    by (simp add: TransactionManager_init_def two_connectors_def getConnector_def)
  have b: "getConnector (connectors ?s) 1 = None
           \<or> (\<exists>c. getConnector (connectors ?s) 1 = Some c \<and> transaction_id c = 0)"
    by (simp add: TransactionManager_init_def two_connectors_def getConnector_def
        idle_connector_def)
  from precondition_violated_no_effect [of 3 ?s failing_env "''TAG01''" 1 "''TAG01''" Local] a b
  show ?thesis by blast
qed

text \<open>
  A transaction that is running on the connector does not stop startTransaction: with
  transaction 10 on connector 1 the request is sent, the answer Accepted is returned
  and the connector takes the new transaction id 42.
\<close>

theorem start_transaction_running_counterexample:
  "map_option transaction_id (getConnector (connectors busy_state) 1) = Some 10
   \<and> fst (startTransaction (answering_env 42 AuthorizationStatus.Accepted) 1 ''TAG02'' busy_state)
       = AuthorizationStatus.Accepted
   \<and> map_option transaction_id
        (getConnector (connectors (snd (startTransaction
           (answering_env 42 AuthorizationStatus.Accepted) 1 ''TAG02'' busy_state))) 1) = Some 42"
  by (simp add: startTransaction_def busy_state_def TransactionManager_init_def
      two_connectors_def idle_connector_def getConnector_def setConnector_def
      answering_env_def failing_env_def start_request_def prepare_start_req_def
      check_reservations_def call_fifo_StartTransaction_def start_accepted_def
      saveConnector_def emit_def Let_def)

section \<open>Start of a transaction\<close>

text \<open>
  C1. On a connector other than 0 that exists and for which the reservation manager
  answers Accepted, when the send of the start request fails, startTransaction returns
  Accepted; the connector has the transaction id -1 and the id tag of the call; after
  the failed call the request is appended to the FIFO, and then the connector is saved
  with these values, the pending profiles are assigned and the sampled meter values
  are started. The connector found under \<open>connector_id\<close> carries that id.
\<close>

theorem start_send_failed:
  assumes "connector_id \<noteq> 0"
    and "getConnector (connectors s) connector_id = Some c"
    and "id_c c = connector_id"
    and "isTransactionAllowed env (trace s) connector_id id_tag = AuthorizationStatus.Accepted"
    and "start_request env c connector_id id_tag
           (emit (EvIsTransactionAllowed connector_id id_tag AuthorizationStatus.Accepted) s)
         = (req, s3)"
    and "call_StartTransaction env (trace s3) (StartTransactionReq_toJson env req) = None"
  shows "\<exists>ts c'. c' = c\<lparr>transaction_id := - 1, transaction_start := ts,
                          transaction_id_tag := id_tag\<rparr>
     \<and> fst (startTransaction env connector_id id_tag s) = AuthorizationStatus.Accepted
     \<and> getConnector (connectors (snd (startTransaction env connector_id id_tag s))) connector_id
         = Some c'
     \<and> requests_fifo (snd (startTransaction env connector_id id_tag s))
         = requests_fifo s @ [(START_TRANSACTION_ACTION, StartTransactionReq_toJson env req)]
     \<and> trace (snd (startTransaction env connector_id id_tag s))
         = [EvStartSampledMeterValues connector_id,
            EvAssignPendingTxProfiles connector_id (- 1),
            EvSaveConnector connector_id (Some c'),
            EvNow ts,
            EvFifoPush START_TRANSACTION_ACTION (StartTransactionReq_toJson env req),
            EvCall START_TRANSACTION_ACTION (StartTransactionReq_toJson env req) True Failed]
           @ trace s3"
proof -
  note keep = start_request_keeps [OF assms(5)]
  have get: "getConnector (connectors s) connector_id \<noteq> None" using assms(2) by simp
  show ?thesis
    using assms keep getConnector_setConnector [OF get]
    by (simp add: startTransaction_def call_fifo_StartTransaction_def start_accepted_def
        saveConnector_def fifo_push_def Let_def)
qed

theorem start_send_failed_witness:
  "fst (startTransaction failing_env 2 ''TAG02'' (TransactionManager_init two_connectors []))
     = AuthorizationStatus.Accepted
   \<and> map_option transaction_id (getConnector (connectors (snd (startTransaction failing_env 2
        ''TAG02'' (TransactionManager_init two_connectors [])))) 2) = Some (- 1)
   \<and> requests_fifo (snd (startTransaction failing_env 2 ''TAG02''
        (TransactionManager_init two_connectors []))) = [(START_TRANSACTION_ACTION, ''TAG02'')]"
proof -
  let ?s = "TransactionManager_init two_connectors []"
  let ?s1 = "emit (EvIsTransactionAllowed 2 ''TAG02'' AuthorizationStatus.Accepted) ?s"
  obtain req s3 where rq: "start_request failing_env (idle_connector 2) 2 ''TAG02'' ?s1 = (req, s3)"
    by (cases "start_request failing_env (idle_connector 2) 2 ''TAG02'' ?s1")
  have req: "StartTransactionReq_toJson failing_env req = ''TAG02''"
    using rq
    by (auto simp: start_request_def prepare_start_req_def check_reservations_def Let_def
        failing_env_def idle_connector_def)
  have h1: "(2::nat) \<noteq> 0" by simp
  have h2: "getConnector (connectors ?s) 2 = Some (idle_connector 2)"
    by (simp add: TransactionManager_init_def two_connectors_def getConnector_def)
  have h3: "id_c (idle_connector 2) = 2" by (simp add: idle_connector_def)
  have h4: "isTransactionAllowed failing_env (trace ?s) 2 ''TAG02'' = AuthorizationStatus.Accepted"
    by (simp add: failing_env_def)
  have h6: "call_StartTransaction failing_env (trace s3) (StartTransactionReq_toJson failing_env req)
              = None"
    by (simp add: failing_env_def)
  from start_send_failed [OF h1 h2 h3 h4 rq h6] req
  show ?thesis by (auto simp: TransactionManager_init_def)
qed

text \<open>
  C6. When the start request is sent and the central system answers with a status other
  than Accepted, startTransaction returns that status and writes no connector; after
  the start call (and the update of the authorization cache, unless the status is
  ConcurrentTx) it calls the sender with a stop request whose reason is DeAuthorized,
  whose meterStop is the meterStart of the start request, whose timestamp is that of
  the start request and whose transaction id is the one of the response. No other
  call of the sender follows.
\<close>

theorem start_rejected_compensated:
  assumes "connector_id \<noteq> 0"
    and "getConnector (connectors s) connector_id = Some c"
    and "isTransactionAllowed env (trace s) connector_id id_tag = AuthorizationStatus.Accepted"
    and "start_request env c connector_id id_tag
           (emit (EvIsTransactionAllowed connector_id id_tag AuthorizationStatus.Accepted) s)
         = (req, s3)"
    and "call_StartTransaction env (trace s3) (StartTransactionReq_toJson env req) = Some conf"
    and "auth_status (idTagInfo conf) \<noteq> AuthorizationStatus.Accepted"
  shows "\<exists>res post.
       fst (startTransaction env connector_id id_tag s) = auth_status (idTagInfo conf)
     \<and> connectors (snd (startTransaction env connector_id id_tag s)) = connectors s
     \<and> trace (snd (startTransaction env connector_id id_tag s))
         = post @
           [EvCall STOP_TRANSACTION_ACTION
              (StopTransactionReq_toJson env
                 \<lparr>stop_transactionId = transactionId conf, stop_idTag = None,
                  meterStop = meterStart req, stop_timestamp = timestamp req,
                  reason = DeAuthorized, transactionData = []\<rparr>) True res]
           @ (if auth_status (idTagInfo conf) \<noteq> ConcurrentTx
              then [EvAuthentUpdate id_tag (idTagInfo conf)] else [])
           @ [EvCall START_TRANSACTION_ACTION (StartTransactionReq_toJson env req) True Ok]
           @ trace s3
     \<and> list_all (\<lambda>e. \<not> is_call e) post"
proof -
  note keep = start_request_keeps [OF assms(4)]
  show ?thesis
    using assms keep
    by (auto simp: startTransaction_def call_fifo_StartTransaction_def start_refused_def
        call_fifo_StopTransaction_def fifo_push_def Let_def split: option.splits)
qed

theorem start_rejected_compensated_witness:
  "fst (startTransaction (answering_env 99 Blocked) 1 ''TAG05''
          (TransactionManager_init two_connectors [])) = Blocked
   \<and> connectors (snd (startTransaction (answering_env 99 Blocked) 1 ''TAG05''
          (TransactionManager_init two_connectors []))) = two_connectors"
proof -
  let ?env = "answering_env 99 Blocked"
  let ?s = "TransactionManager_init two_connectors []"
  let ?s1 = "emit (EvIsTransactionAllowed 1 ''TAG05'' AuthorizationStatus.Accepted) ?s"
  let ?conf = "\<lparr>transactionId = 99,
                idTagInfo = \<lparr>auth_status = Blocked, expiryDate = None, parentIdTag = None\<rparr>\<rparr>"
  obtain req s3 where rq: "start_request ?env (idle_connector 1) 1 ''TAG05'' ?s1 = (req, s3)"
    by (cases "start_request ?env (idle_connector 1) 1 ''TAG05'' ?s1")
  have h1: "(1::nat) \<noteq> 0" by simp
  have h2: "getConnector (connectors ?s) 1 = Some (idle_connector 1)"
    by (simp add: TransactionManager_init_def two_connectors_def getConnector_def)
  have h3: "isTransactionAllowed ?env (trace ?s) 1 ''TAG05'' = AuthorizationStatus.Accepted"
    by (simp add: answering_env_def failing_env_def)
  have h5: "call_StartTransaction ?env (trace s3) (StartTransactionReq_toJson ?env req) = Some ?conf"
    by (simp add: answering_env_def failing_env_def)
  have h6: "auth_status (idTagInfo ?conf) \<noteq> AuthorizationStatus.Accepted" by simp
  from start_rejected_compensated [OF h1 h2 h3 rq h5 h6]
  show ?thesis by (auto simp: TransactionManager_init_def)
qed

section \<open>Stop of a transaction\<close>

text \<open>
  C2. On a connector that exists and has a transaction (transaction id other than 0),
  stopTransaction returns true whatever the sender answers; the connector ends with
  transaction id 0, no id tag and no start time; it is saved with these values
  immediately before the one call of the sender that stopTransaction makes.
\<close>

theorem stop_resets_before_send:
  assumes "getConnector (connectors s) connector_id = Some c"
    and "id_c c = connector_id"
    and "transaction_id c \<noteq> 0"
  shows "\<exists>c' payload res post pre.
       c' = c\<lparr>transaction_id := 0, transaction_id_tag := [], transaction_start := 0\<rparr>
     \<and> fst (stopTransaction env connector_id id_tag rsn s) = True
     \<and> getConnector (connectors (snd (stopTransaction env connector_id id_tag rsn s))) connector_id
         = Some c'
     \<and> trace (snd (stopTransaction env connector_id id_tag rsn s))
         = post @ [EvCall STOP_TRANSACTION_ACTION payload True res,
                   EvSaveConnector connector_id (Some c')] @ pre @ trace s
     \<and> list_all (\<lambda>e. \<not> is_call e) (post @ pre)"
proof -
  obtain stop_req s4 where rq: "stop_request env c connector_id id_tag rsn s = (stop_req, s4)"
    by (cases "stop_request env c connector_id id_tag rsn s")
  note keep = stop_request_keeps [OF rq]
  have get: "getConnector (connectors s) connector_id \<noteq> None" using assms(1) by simp
  have "\<exists>pre. trace s4 = pre @ trace s \<and> list_all (\<lambda>e. \<not> is_call e) pre"
    using rq by (auto simp: stop_request_def Let_def)
  then obtain pre where pre: "trace s4 = pre @ trace s" "list_all (\<lambda>e. \<not> is_call e) pre"
    by blast
  let ?c' = "c\<lparr>transaction_id := 0, transaction_id_tag := [], transaction_start := 0\<rparr>"
  let ?p = "StopTransactionReq_toJson env stop_req"
  let ?s' = "snd (stopTransaction env connector_id id_tag rsn s)"
  have "\<exists>res post. trace ?s' = post @ [EvCall STOP_TRANSACTION_ACTION ?p True res,
                   EvSaveConnector connector_id (Some ?c')] @ pre @ trace s
          \<and> list_all (\<lambda>e. \<not> is_call e) post"
  proof (cases "call_StopTransaction env (EvSaveConnector connector_id (Some ?c') # trace s4) ?p")
    case None
    have "trace ?s' = [EvClearTxProfiles connector_id, EvFifoPush STOP_TRANSACTION_ACTION ?p]
            @ [EvCall STOP_TRANSACTION_ACTION ?p True Failed,
               EvSaveConnector connector_id (Some ?c')] @ pre @ trace s"
      using assms keep getConnector_setConnector [OF get] pre rq None
      by (simp add: stopTransaction_def call_fifo_StopTransaction_def
          saveConnector_def fifo_push_def Let_def)
    moreover have "list_all (\<lambda>e. \<not> is_call e)
        [EvClearTxProfiles connector_id, EvFifoPush STOP_TRANSACTION_ACTION ?p]"
      by simp
    ultimately show ?thesis by blast
  next
    case (Some conf)
    have "trace ?s' = (EvClearTxProfiles connector_id #
              (case stop_idTagInfo conf of Some info \<Rightarrow> [EvAuthentUpdate id_tag info]
               | None \<Rightarrow> []))
            @ [EvCall STOP_TRANSACTION_ACTION ?p True Ok,
               EvSaveConnector connector_id (Some ?c')] @ pre @ trace s"
      using assms keep getConnector_setConnector [OF get] pre rq Some
      by (simp add: stopTransaction_def call_fifo_StopTransaction_def
          saveConnector_def Let_def split: option.split)
    moreover have "list_all (\<lambda>e. \<not> is_call e) (EvClearTxProfiles connector_id #
              (case stop_idTagInfo conf of Some info \<Rightarrow> [EvAuthentUpdate id_tag info]
               | None \<Rightarrow> []))"
      by (simp split: option.split)
    ultimately show ?thesis by blast
  qed
  moreover have "fst (stopTransaction env connector_id id_tag rsn s) = True"
    using assms rq by (simp add: stopTransaction_def Let_def split: prod.split)
  moreover have "getConnector (connectors ?s') connector_id = Some ?c'"
    using assms keep getConnector_setConnector [OF get] rq
    by (simp add: stopTransaction_def call_fifo_StopTransaction_def
        saveConnector_def fifo_push_def Let_def split: option.split)
  ultimately show ?thesis using pre(2) by auto
qed

theorem stop_resets_before_send_witness:
  "fst (stopTransaction failing_env 1 ''TAG01'' Local busy_state) = True
   \<and> fst (stopTransaction (answering_env 0 AuthorizationStatus.Accepted) 1 ''TAG01'' Local busy_state) = True
   \<and> getConnector (connectors (snd (stopTransaction failing_env 1 ''TAG01'' Local busy_state))) 1
       = Some (idle_connector 1)"
proof -
  let ?c = "(idle_connector 1)\<lparr>transaction_id := 10, transaction_id_tag := ''TAG01'',
                               transaction_start := 5\<rparr>"
  have h1: "getConnector (connectors busy_state) 1 = Some ?c"
    by (simp add: busy_state_def TransactionManager_init_def two_connectors_def getConnector_def)
  have h2: "id_c ?c = 1" by (simp add: idle_connector_def)
  have h3: "transaction_id ?c \<noteq> 0" by simp
  from stop_resets_before_send [OF h1 h2 h3, of failing_env "''TAG01''" Local]
    stop_resets_before_send [OF h1 h2 h3, of "answering_env 0 AuthorizationStatus.Accepted"
      "''TAG01''" Local]
  show ?thesis by (auto simp: idle_connector_def)
qed

text \<open>
  C10. stopTransaction does not look at the id tag stored in the connector: for a
  connector with a transaction, whatever its stored tag and whatever the tag of the
  call, the result is true, the connector ends with transaction id 0 and the stop
  request is handed to the sender. The request carries the tag of the call, and no tag
  at all when the tag of the call is empty.
\<close>

theorem stop_ignores_id_tag:
  assumes "getConnector (connectors s) connector_id = Some c"
    and "transaction_id c \<noteq> 0"
  shows "fst (stopTransaction env connector_id id_tag rsn s) = True
     \<and> map_option transaction_id
         (getConnector (connectors (snd (stopTransaction env connector_id id_tag rsn s))) connector_id)
         = Some 0
     \<and> stop_idTag (fst (stop_request env c connector_id id_tag rsn s))
         = (if id_tag = [] then None else Some (assign_idTag env id_tag))
     \<and> (\<exists>res. EvCall STOP_TRANSACTION_ACTION
            (StopTransactionReq_toJson env (fst (stop_request env c connector_id id_tag rsn s)))
            True res \<in> set (trace (snd (stopTransaction env connector_id id_tag rsn s))))"
proof -
  obtain stop_req s4 where rq: "stop_request env c connector_id id_tag rsn s = (stop_req, s4)"
    by (cases "stop_request env c connector_id id_tag rsn s")
  note keep = stop_request_keeps [OF rq]
  have get: "getConnector (connectors s) connector_id \<noteq> None" using assms(1) by simp
  have tag: "stop_idTag stop_req = (if id_tag = [] then None else Some (assign_idTag env id_tag))"
    using rq by (auto simp: stop_request_def Let_def)
  show ?thesis
    using assms keep getConnector_setConnector [OF get] rq tag
    by (auto simp: stopTransaction_def call_fifo_StopTransaction_def
        saveConnector_def fifo_push_def Let_def split: option.splits)
qed

theorem stop_ignores_id_tag_witness:
  "fst (stopTransaction failing_env 1 ''OTHER'' Local busy_state) = True
   \<and> fst (stopTransaction failing_env 1 [] Local busy_state) = True
   \<and> stop_idTag (fst (stop_request failing_env
        ((idle_connector 1)\<lparr>transaction_id := 10, transaction_id_tag := ''TAG01'',
                             transaction_start := 5\<rparr>) 1 [] Local busy_state)) = None"
proof -
  let ?c = "(idle_connector 1)\<lparr>transaction_id := 10, transaction_id_tag := ''TAG01'',
                               transaction_start := 5\<rparr>"
  have h1: "getConnector (connectors busy_state) 1 = Some ?c"
    by (simp add: busy_state_def TransactionManager_init_def two_connectors_def getConnector_def)
  have h3: "transaction_id ?c \<noteq> 0" by simp
  from stop_ignores_id_tag [OF h1 h3, of failing_env "''OTHER''" Local]
    stop_ignores_id_tag [OF h1 h3, of failing_env "[]" Local]
  show ?thesis by simp
qed

section \<open>Remote start\<close>

text \<open>
  C8. The answer to a remote start request is Accepted only if the connector id is set
  and not 0, the connector exists, is not Unavailable, has no transaction, and the
  reservation manager allows the id tag on it. When one of these fails the answer is
  Rejected and nothing happened but, at most, the question to the reservation manager:
  the events handler is not called. When they hold, the events handler accepts and the
  installation of the charging profile of the request fails, the answer is Rejected.
\<close>

theorem remote_start_gate:
  "(fst (handleMessage_RemoteStartTransaction env request s) = RemoteStartStopStatus.Accepted
      \<longrightarrow> remote_start_preconditions env request s)
   \<and> (\<not> remote_start_preconditions env request s
      \<longrightarrow> fst (handleMessage_RemoteStartTransaction env request s) = RemoteStartStopStatus.Rejected
          \<and> (snd (handleMessage_RemoteStartTransaction env request s) = s
              \<or> (\<exists>cid r. snd (handleMessage_RemoteStartTransaction env request s)
                    = emit (EvIsTransactionAllowed cid (remote_idTag request) r) s)))
   \<and> (\<forall>cid profile.
        remote_start_preconditions env request s
        \<and> remote_connectorId request = Some cid
        \<and> chargingProfile request = Some profile
        \<and> remoteStartTransactionRequested env
             (EvIsTransactionAllowed cid (remote_idTag request) AuthorizationStatus.Accepted # trace s)
             cid (remote_idTag request)
        \<and> \<not> installTxProfile env
             (EvRemoteStartTransactionRequested cid (remote_idTag request) True
              # EvIsTransactionAllowed cid (remote_idTag request) AuthorizationStatus.Accepted
              # trace s) cid profile
      \<longrightarrow> fst (handleMessage_RemoteStartTransaction env request s) = RemoteStartStopStatus.Rejected)"
  by (auto simp: handleMessage_RemoteStartTransaction_def remote_start_preconditions_def Let_def
      split: option.splits if_splits prod.splits)

theorem remote_start_gate_witness:
  "fst (handleMessage_RemoteStartTransaction failing_env
          \<lparr>remote_connectorId = Some 1, remote_idTag = ''X'', chargingProfile = None\<rparr> busy_state)
     = RemoteStartStopStatus.Rejected
   \<and> snd (handleMessage_RemoteStartTransaction failing_env
          \<lparr>remote_connectorId = Some 1, remote_idTag = ''X'', chargingProfile = None\<rparr> busy_state)
     = busy_state
   \<and> fst (handleMessage_RemoteStartTransaction failing_env
          \<lparr>remote_connectorId = Some 2, remote_idTag = ''X'',
           chargingProfile = Some (ChargingProfile 7)\<rparr> busy_state)
     = RemoteStartStopStatus.Rejected"
proof -
  let ?busy = "\<lparr>remote_connectorId = Some 1, remote_idTag = ''X'', chargingProfile = None\<rparr>"
  let ?prof = "\<lparr>remote_connectorId = Some 2, remote_idTag = ''X'',
                chargingProfile = Some (ChargingProfile 7)\<rparr>"
  have a: "\<not> remote_start_preconditions failing_env ?busy busy_state"
    by (simp add: remote_start_preconditions_def busy_state_def TransactionManager_init_def
        two_connectors_def getConnector_def idle_connector_def)
  have b: "remote_start_preconditions failing_env ?prof busy_state"
    by (simp add: remote_start_preconditions_def busy_state_def TransactionManager_init_def
        two_connectors_def getConnector_def idle_connector_def failing_env_def)
  have c: "remoteStartTransactionRequested failing_env t 2 ''X''"
    and d: "\<not> installTxProfile failing_env t' 2 (ChargingProfile 7)" for t t'
    by (simp_all add: failing_env_def)
  have e: "snd (handleMessage_RemoteStartTransaction failing_env ?busy busy_state) = busy_state"
    by (simp add: handleMessage_RemoteStartTransaction_def busy_state_def
        TransactionManager_init_def two_connectors_def getConnector_def idle_connector_def)
  from remote_start_gate [of failing_env ?busy busy_state] a
  have "fst (handleMessage_RemoteStartTransaction failing_env ?busy busy_state)
          = RemoteStartStopStatus.Rejected" by blast
  moreover from remote_start_gate [of failing_env ?prof busy_state] b c d
  have "fst (handleMessage_RemoteStartTransaction failing_env ?prof busy_state)
          = RemoteStartStopStatus.Rejected" by simp
  ultimately show ?thesis using e by simp
qed

section \<open>The drain of the FIFO\<close>

text \<open>
  C7. When the head of the FIFO is a start request and its send succeeds, the events of
  that pass of the loop are, in order: the call; the update of the authorization cache
  with the id tag of the queued request and the idTagInfo of the response, unless the
  status is ConcurrentTx; one call of transactionDeAuthorized for the connector of the
  queued request, when the status is not Accepted and that connector has transaction
  id -1 and the id tag of the request, and none otherwise; and the pop. The retry
  count is 0 afterwards.
\<close>

theorem queued_start_sent:
  assumes "requests_fifo s = (START_TRANSACTION_ACTION, payload) # rest"
    and "call_StartTransaction env (trace s) payload = Some response"
    and "request = StartTransactionReq_fromJson env payload"
  shows "trace (process_head env s)
         = EvFifoPop
           # (if auth_status (idTagInfo response) \<noteq> AuthorizationStatus.Accepted then
                (case getConnector (connectors s) (connectorId request) of
                   Some connector \<Rightarrow>
                     if transaction_id connector = - 1
                        \<and> transaction_id_tag connector = idTag request
                     then [EvTransactionDeAuthorized (id_c connector)] else []
                 | None \<Rightarrow> [])
              else [])
           @ (if auth_status (idTagInfo response) \<noteq> ConcurrentTx
              then [EvAuthentUpdate (idTag request) (idTagInfo response)] else [])
           @ [EvCall START_TRANSACTION_ACTION payload False Ok]
           @ trace s
     \<and> requests_fifo (process_head env s) = rest
     \<and> request_retry_count (process_head env s) = 0
     \<and> connectors (process_head env s) = connectors s"
  using assms
  by (simp add: process_head_def send_head_def fifo_pop_def Let_def split: option.split)

theorem queued_start_sent_witness:
  "trace (process_head (answering_env 99 Blocked) provisional_state)
     = [EvFifoPop, EvTransactionDeAuthorized 1,
        EvAuthentUpdate ''TAG02'' \<lparr>auth_status = Blocked, expiryDate = None, parentIdTag = None\<rparr>,
        EvCall START_TRANSACTION_ACTION ''TAG02'' False Ok]
   \<and> requests_fifo (process_head (answering_env 99 Blocked) provisional_state)
     = [(STOP_TRANSACTION_ACTION, ''TAG02'')]"
proof -
  let ?env = "answering_env 99 Blocked"
  let ?conf = "\<lparr>transactionId = 99,
                idTagInfo = \<lparr>auth_status = Blocked, expiryDate = None, parentIdTag = None\<rparr>\<rparr>"
  let ?req = "\<lparr>connectorId = 1, idTag = ''TAG02'', meterStart = 0, timestamp = 0,
               reservationId = None\<rparr>"
  have h1: "requests_fifo provisional_state
              = (START_TRANSACTION_ACTION, ''TAG02'') # [(STOP_TRANSACTION_ACTION, ''TAG02'')]"
    by (simp add: provisional_state_def TransactionManager_init_def)
  have h2: "call_StartTransaction ?env (trace provisional_state) ''TAG02'' = Some ?conf"
    by (simp add: answering_env_def failing_env_def)
  have h3: "?req = StartTransactionReq_fromJson ?env ''TAG02''"
    by (simp add: answering_env_def failing_env_def)
  from queued_start_sent [OF h1 h2 h3]
  show ?thesis
    by (simp add: provisional_state_def TransactionManager_init_def two_connectors_def
        getConnector_def idle_connector_def)
qed

text \<open>
  C9, as the code has it. A head request of an unknown action is not sent: the pass adds
  no call of the sender. It counts as a failed send: when the retry count has reached
  TransactionMessageAttempts the request is popped and the count is 0; before that the
  request stays at the head, the count goes up by one, and the retry timer is armed
  for the retry interval if the sender reports a connection.
\<close>

theorem unknown_action_counts_as_failure:
  assumes "requests_fifo s = (action, payload) # rest"
    and "action \<noteq> START_TRANSACTION_ACTION"
    and "action \<noteq> STOP_TRANSACTION_ACTION"
    and "action \<noteq> METER_VALUES_ACTION"
  shows "filter is_call (trace (process_head env s)) = filter is_call (trace s)
     \<and> (transactionMessageAttempts env \<le> request_retry_count s \<longrightarrow>
          requests_fifo (process_head env s) = rest
          \<and> request_retry_count (process_head env s) = 0)
     \<and> (request_retry_count s < transactionMessageAttempts env \<longrightarrow>
          requests_fifo (process_head env s) = requests_fifo s
          \<and> request_retry_count (process_head env s) = request_retry_count s + 1
          \<and> request_retry_timer (process_head env s)
              = (if isConnected env (trace s)
                 then Some (transactionMessageRetryInterval env * 1000)
                 else request_retry_timer s))"
  using assms
  by (simp add: process_head_def send_head_def fifo_pop_def timer_restart_def emit_def Let_def)

theorem unknown_action_counts_as_failure_witness:
  "filter is_call (trace (process_head failing_env unknown_head_state)) = []
   \<and> requests_fifo (process_head failing_env unknown_head_state)
       = requests_fifo unknown_head_state
   \<and> request_retry_count (process_head failing_env unknown_head_state) = 1
   \<and> requests_fifo (process_head failing_env (unknown_head_state\<lparr>request_retry_count := 3\<rparr>))
       = [(STOP_TRANSACTION_ACTION, ''TAG02'')]"
proof -
  have h1: "requests_fifo unknown_head_state
              = (''Heartbeat'', ''{}'') # [(STOP_TRANSACTION_ACTION, ''TAG02'')]"
    and h1': "requests_fifo (unknown_head_state\<lparr>request_retry_count := 3\<rparr>)
              = (''Heartbeat'', ''{}'') # [(STOP_TRANSACTION_ACTION, ''TAG02'')]"
    by (simp_all add: unknown_head_state_def TransactionManager_init_def)
  have h2: "''Heartbeat'' \<noteq> START_TRANSACTION_ACTION"
    and h3: "''Heartbeat'' \<noteq> STOP_TRANSACTION_ACTION"
    and h4: "''Heartbeat'' \<noteq> METER_VALUES_ACTION" by simp_all
  from unknown_action_counts_as_failure [OF h1 h2 h3 h4, of failing_env]
    unknown_action_counts_as_failure [OF h1' h2 h3 h4, of failing_env]
  show ?thesis
    by (simp add: unknown_head_state_def TransactionManager_init_def failing_env_def)
qed

text \<open>
  With three attempts, a connection and an accepted registration, processFifoRequest
  leaves the unknown request at the head of the FIFO, with a retry count of 1 and the
  timer armed for sixty seconds.
\<close>

theorem unknown_action_kept_counterexample:
  "requests_fifo (processFifoRequest failing_env
      unknown_head_state)
     = [(''Heartbeat'', ''{}''), (STOP_TRANSACTION_ACTION, ''TAG02'')]
   \<and> request_retry_count (processFifoRequest failing_env
      unknown_head_state) = 1
   \<and> request_retry_timer (processFifoRequest failing_env
      unknown_head_state) = Some 60000"
  by (simp add: processFifoRequest_def unknown_head_state_def TransactionManager_init_def
      failing_env_def drain_loop.simps
      process_head_def send_head_def timer_restart_def timer_isStarted_def emit_def Let_def)

text \<open>
  C3. Without connection processFifoRequest does nothing but ask for the connection.
  With a connection and a registration status other than Accepted it asks for both,
  arms the timer for 250 ms and leaves the FIFO as it is. And over any sequence of
  operations from the construction on, every send of processFifoRequest comes right
  after the sender reported a connection (at the entry, with the answer Accepted of
  the status manager in between).
\<close>

theorem drain_gated:
  "(\<not> isConnected env (trace s)
      \<longrightarrow> processFifoRequest env s = emit (EvIsConnected False) s)
   \<and> (isConnected env (trace s)
        \<and> getRegistrationStatus env (EvIsConnected True # trace s) \<noteq> RegistrationStatus.Accepted
      \<longrightarrow> requests_fifo (processFifoRequest env s) = requests_fifo s
          \<and> request_retry_timer (processFifoRequest env s) = Some 250
          \<and> trace (processFifoRequest env s)
              = [EvTimerRestart 250,
                 EvGetRegistrationStatus (getRegistrationStatus env (EvIsConnected True # trace s)),
                 EvIsConnected True] @ trace s)
   \<and> sends_gated (trace (run env ops (TransactionManager_init cs fifo)))"
proof -
  have "sends_gated (trace (run env ops (TransactionManager_init cs fifo)))"
    by (rule run_gated) (simp add: TransactionManager_init_def)
  then show ?thesis
    by (simp add: processFifoRequest_def Let_def timer_restart_def)
qed

theorem drain_gated_witness:
  "processFifoRequest offline_env provisional_state = emit (EvIsConnected False) provisional_state
   \<and> requests_fifo (processFifoRequest pending_env provisional_state)
       = requests_fifo provisional_state
   \<and> request_retry_timer (processFifoRequest pending_env provisional_state) = Some 250
   \<and> sends_gated (trace (run failing_env
        [OpStartTransaction 1 ''TAG02'', OpUpdateConnectionStatus True, OpTimerExpired]
        (TransactionManager_init two_connectors [])))"
proof -
  have a: "\<not> isConnected offline_env (trace provisional_state)"
    by (simp add: offline_env_def)
  have b: "isConnected pending_env (trace provisional_state)
           \<and> getRegistrationStatus pending_env (EvIsConnected True # trace provisional_state)
               \<noteq> RegistrationStatus.Accepted"
    by (simp add: pending_env_def failing_env_def)
  from drain_gated [of offline_env provisional_state] a
    drain_gated [of pending_env provisional_state] b
    drain_gated [of failing_env _ "[OpStartTransaction 1 ''TAG02'', OpUpdateConnectionStatus True,
      OpTimerExpired]" two_connectors "[]"]
  show ?thesis by blast
qed

text \<open>
  C4. Over any sequence of operations from the construction on, there are at no time
  more than TransactionMessageAttempts + 1 sends of processFifoRequest since the last
  pop of the FIFO, and these sends are all sends of the request that is the head of
  the FIFO. In one pass of the loop over a head request: after a send that succeeds
  the head is popped and the retry count is 0; after a failure the retry count goes
  up by one, and if it then exceeds TransactionMessageAttempts the head is popped and
  the count is 0, else the head stays.
\<close>

theorem retry_bound:
  "sends_bounded (transactionMessageAttempts env + 1)
     (trace (run env ops (TransactionManager_init cs fifo)))
   \<and> pending_for_head (run env ops (TransactionManager_init cs fifo))
   \<and> (\<forall>action payload rest res s1.
        requests_fifo s = (action, payload) # rest \<and> send_head env action payload s = (res, s1)
        \<longrightarrow> (res = Ok \<longrightarrow>
               requests_fifo (process_head env s) = rest
               \<and> request_retry_count (process_head env s) = 0)
            \<and> (res \<noteq> Ok \<and> transactionMessageAttempts env < request_retry_count s + 1 \<longrightarrow>
               requests_fifo (process_head env s) = rest
               \<and> request_retry_count (process_head env s) = 0)
            \<and> (res \<noteq> Ok \<and> request_retry_count s + 1 \<le> transactionMessageAttempts env \<longrightarrow>
               requests_fifo (process_head env s) = requests_fifo s
               \<and> request_retry_count (process_head env s) = request_retry_count s + 1))"
proof -
  have "retry_inv env (run env ops (TransactionManager_init cs fifo))"
    by (rule run_retry)
      (simp add: retry_inv_def pending_for_head_def TransactionManager_init_def
        split: list.split)
  then have a: "sends_bounded (transactionMessageAttempts env + 1)
     (trace (run env ops (TransactionManager_init cs fifo)))
     \<and> pending_for_head (run env ops (TransactionManager_init cs fifo))"
    by (simp add: retry_inv_def)
  have b: "requests_fifo s1 = requests_fifo s \<and> request_retry_count s1 = request_retry_count s"
    if "send_head env action payload s = (res, s1)" for action payload res s1
    using send_head_keeps [OF that] by simp
  show ?thesis
    using a
    by (auto simp: process_head_def fifo_pop_def timer_restart_def Let_def dest!: b)
qed

theorem retry_bound_witness:
  "sends_bounded 4 (trace (run failing_env
      [OpProcessFifoRequest, OpTimerExpired, OpTimerExpired, OpTimerExpired]
      provisional_state))
   \<and> requests_fifo (process_head failing_env provisional_state)
       = requests_fifo provisional_state
   \<and> request_retry_count (process_head failing_env provisional_state) = 1
   \<and> requests_fifo (process_head failing_env (provisional_state\<lparr>request_retry_count := 3\<rparr>))
       = [(STOP_TRANSACTION_ACTION, ''TAG02'')]
   \<and> request_retry_count (process_head failing_env
         (provisional_state\<lparr>request_retry_count := 3\<rparr>)) = 0
   \<and> requests_fifo (process_head (answering_env 42 AuthorizationStatus.Accepted) provisional_state)
       = [(STOP_TRANSACTION_ACTION, ''TAG02'')]"
proof -
  let ?s3 = "provisional_state\<lparr>request_retry_count := 3\<rparr>"
  let ?ok = "answering_env 42 AuthorizationStatus.Accepted"
  have f: "requests_fifo provisional_state
             = (START_TRANSACTION_ACTION, ''TAG02'') # [(STOP_TRANSACTION_ACTION, ''TAG02'')]"
    and f3: "requests_fifo ?s3
             = (START_TRANSACTION_ACTION, ''TAG02'') # [(STOP_TRANSACTION_ACTION, ''TAG02'')]"
    and c: "request_retry_count provisional_state = 0" "request_retry_count ?s3 = 3"
    by (simp_all add: provisional_state_def TransactionManager_init_def)
  have a: "transactionMessageAttempts failing_env = 3"
    by (simp add: failing_env_def)
  obtain s1 where s1: "send_head failing_env START_TRANSACTION_ACTION ''TAG02'' provisional_state
      = (Failed, s1)"
    by (simp add: send_head_def failing_env_def)
  obtain s1' where s1': "send_head failing_env START_TRANSACTION_ACTION ''TAG02'' ?s3 = (Failed, s1')"
    by (simp add: send_head_def failing_env_def)
  obtain s1'' where s1'': "send_head ?ok START_TRANSACTION_ACTION ''TAG02'' provisional_state
      = (Ok, s1'')"
    by (simp add: send_head_def answering_env_def failing_env_def Let_def)
  have init: "provisional_state = TransactionManager_init (connectors provisional_state)
      (requests_fifo provisional_state)"
    by (simp add: provisional_state_def TransactionManager_init_def)
  have "sends_bounded (transactionMessageAttempts failing_env + 1) (trace (run failing_env
      [OpProcessFifoRequest, OpTimerExpired, OpTimerExpired, OpTimerExpired]
      provisional_state))"
    using retry_bound [of failing_env "[OpProcessFifoRequest, OpTimerExpired, OpTimerExpired,
      OpTimerExpired]" "connectors provisional_state" "requests_fifo provisional_state"]
      init by simp
  moreover from retry_bound [of failing_env "[]" two_connectors "[]" provisional_state] f s1 c a
  have "requests_fifo (process_head failing_env provisional_state) = requests_fifo provisional_state
        \<and> request_retry_count (process_head failing_env provisional_state) = 1"
    by simp
  moreover from retry_bound [of failing_env "[]" two_connectors "[]" ?s3] f3 s1' c a
  have "requests_fifo (process_head failing_env ?s3) = [(STOP_TRANSACTION_ACTION, ''TAG02'')]
        \<and> request_retry_count (process_head failing_env ?s3) = 0"
    by simp
  moreover from retry_bound [of ?ok "[]" two_connectors "[]" provisional_state] f s1''
  have "requests_fifo (process_head ?ok provisional_state) = [(STOP_TRANSACTION_ACTION, ''TAG02'')]"
    by simp
  ultimately show ?thesis using a by simp
qed

end
